theory Spec2Isabelle
  imports Main "HOL-Library.Sublist"
begin

section \<open>Values and exceptions\<close>

text \<open>
  The values that \<^verbatim>\<open>json.load\<close> and \<^verbatim>\<open>request.get_json()\<close> hand to the program.
  A Python \<^verbatim>\<open>dict\<close> keeps its keys in insertion order, so an object is an association
  list. A Python \<^verbatim>\<open>int\<close> is unbounded. A Python \<^verbatim>\<open>float\<close> is carried by the text that
  \<^verbatim>\<open>float.__repr__\<close> gives for it (\<^verbatim>\<open>0.0\<close>, \<^verbatim>\<open>-0.0\<close>, \<^verbatim>\<open>1e+16\<close>, \<^verbatim>\<open>nan\<close>, \<^verbatim>\<open>inf\<close>, ...):
  the program only tests a float for zero and prints it. A character of a \<^verbatim>\<open>str\<close> is a
  code point below 256.
\<close>

datatype json =
    JNull
  | JBool bool
  | JInt int
  | JFloat string
  | JString string
  | JArray "json list"
  | JObject "(string \<times> json) list"

text \<open>The exception classes that the modelled statements can raise.\<close>

datatype py_error =
    FileNotFoundError
  | PermissionError
  | OSError
  | JSONDecodeError
  | TypeError
  | KeyError
  | AttributeError
  | IndentationError
  | RuntimeError string

text \<open>A text between double quotes, and between apostrophes.\<close>

definition quoted :: "string \<Rightarrow> string" where
  "quoted s = CHR 0x22 # s @ [CHR 0x22]"

definition apostrophed :: "string \<Rightarrow> string" where
  "apostrophed s = CHR 0x27 # s @ [CHR 0x27]"

subsection \<open>Dictionaries in insertion order\<close>

text \<open>\<^verbatim>\<open>k in d\<close>, \<^verbatim>\<open>d.get(k)\<close> and \<^verbatim>\<open>d[k] = v\<close> on a \<^verbatim>\<open>dict\<close>: an existing key keeps its
  position and takes the new value, a new key goes to the end.\<close>

definition dict_lookup :: "('k \<times> 'v) list \<Rightarrow> 'k \<Rightarrow> 'v option" where
  "dict_lookup d k = map_of d k"

definition dict_contains :: "('k \<times> 'v) list \<Rightarrow> 'k \<Rightarrow> bool" where
  "dict_contains d k = (case dict_lookup d k of None \<Rightarrow> False | Some _ \<Rightarrow> True)"

fun dict_setitem :: "('k \<times> 'v) list \<Rightarrow> 'k \<Rightarrow> 'v \<Rightarrow> ('k \<times> 'v) list" where
  "dict_setitem [] k v = [(k, v)]"
| "dict_setitem ((k', v') # d) k v =
     (if k' = k then (k, v) # d else (k', v') # dict_setitem d k v)"

subsection \<open>Truth value of a Python object\<close>

text \<open>\<^verbatim>\<open>not x\<close> is the negation of \<^verbatim>\<open>bool(x)\<close>: \<^verbatim>\<open>None\<close>, \<^verbatim>\<open>False\<close>, zero and the empty
  string, list and dict are false, everything else is true.\<close>

fun truthy :: "json \<Rightarrow> bool" where
  "truthy JNull = False"
| "truthy (JBool b) = b"
| "truthy (JInt n) = (n \<noteq> 0)"
| "truthy (JFloat r) = (r \<noteq> ''0.0'' \<and> r \<noteq> ''-0.0'')"
| "truthy (JString s) = (s \<noteq> [])"
| "truthy (JArray xs) = (xs \<noteq> [])"
| "truthy (JObject d) = (d \<noteq> [])"

section \<open>The HTTP handler (main.py)\<close>

subsection \<open>The file and its compilation\<close>

text \<open>The 25 lines of \<^verbatim>\<open>main.py\<close> as they are stored: every line that is not empty starts
  with blanks, six of them on the lines of the module level.\<close>

definition main_py :: "string list" where
  "main_py =
     [''      #!/usr/bin/env python'',
      ''      # src/data_gathering_crew/main.py'',
      ''      from data_gathering_crew.crew import DataGatheringCrew'',
      ''      from flask import Flask, request, jsonify'',
      [],
      ''      app = Flask(__name__)'',
      [],
      [],
      ''      @app.route('' @ apostrophed ''/extract'' @ '', methods=['' @ apostrophed ''POST'' @ ''])'',
      ''      def kickoff():'',
      ''          '' @ [CHR 0x22, CHR 0x22, CHR 0x22],
      ''            Run the crew and return the data as json.'',
      ''            '' @ [CHR 0x22, CHR 0x22, CHR 0x22],
      ''          data = request.get_json()'',
      ''          text_to_process = data.get('' @ quoted ''text'' @ '', None)'',
      [],
      ''          if not text_to_process:'',
      ''              return jsonify({'' @ quoted ''message'' @ '': '' @ quoted ''Text not provided''
        @ ''}), 400'',
      [],
      ''          result = DataGatheringCrew().crew().kickoff(inputs={'' @ quoted ''text''
        @ '': text_to_process})'',
      ''          return jsonify({'' @ quoted ''result'' @ '': result})'',
      [],
      [],
      ''      if __name__ == '' @ quoted ''__main__'' @ '':'',
      ''        app.run(host='' @ apostrophed ''0.0.0.0'' @ '', port=5001, debug=True)'']"

text \<open>
  Python compiles a file before it runs any of it, and the tokenizer measures the
  indentation of every line that carries code: a space moves one column on, a tab moves
  to the next multiple of eight, a form feed goes back to column 0. Empty lines and lines
  with only a comment do not count. The first statement of a module has to start in
  column 0: when it does not, the file is refused with \<^verbatim>\<open>IndentationError: unexpected
  indent\<close>. \<open>compile_module\<close> is that rule, the one that decides for this file; a text
  that passes it is taken to compile.
\<close>

fun indent_from :: "nat \<Rightarrow> string \<Rightarrow> nat" where
  "indent_from col [] = col"
| "indent_from col (c # cs) =
     (if c = CHR '' '' then indent_from (col + 1) cs
      else if c = CHR 0x09 then indent_from ((col div 8 + 1) * 8) cs
      else if c = CHR 0x0C then indent_from 0 cs
      else col)"

definition is_blank :: "char \<Rightarrow> bool" where
  "is_blank c = (c = CHR '' '' \<or> c = CHR 0x09 \<or> c = CHR 0x0C)"

definition is_code_line :: "string \<Rightarrow> bool" where
  "is_code_line l = (case dropWhile is_blank l of [] \<Rightarrow> False | c # _ \<Rightarrow> c \<noteq> CHR ''#'')"

definition compile_module :: "string list \<Rightarrow> py_error option" where
  "compile_module src =
     (case List.find is_code_line src of
        None \<Rightarrow> None
      | Some l \<Rightarrow> if 0 < indent_from 0 l then Some IndentationError else None)"

text \<open>
  A module that does not compile defines nothing: there is no \<^verbatim>\<open>app\<close>, no route and no
  server, and no request reaches a view. \<open>serve src view data\<close> is what becomes of a
  request with the parsed body \<open>data\<close> sent to the program whose file is \<open>src\<close> and whose
  view function is \<open>view\<close>: the exception that ended the program, or what the view did.
\<close>

definition serve :: "string list \<Rightarrow> (json \<Rightarrow> 'a) \<Rightarrow> json \<Rightarrow> py_error + 'a" where
  "serve src view data =
     (case compile_module src of Some e \<Rightarrow> Inl e | None \<Rightarrow> Inr (view data))"

subsection \<open>The body of the view function\<close>

text \<open>
  \<^verbatim>\<open>data.get("text", None)\<close>: only a \<^verbatim>\<open>dict\<close> has the method \<^verbatim>\<open>get\<close>; on a list, a string,
  a number, a boolean or \<^verbatim>\<open>None\<close> the attribute lookup raises \<^verbatim>\<open>AttributeError\<close>.
\<close>

fun py_get :: "json \<Rightarrow> string \<Rightarrow> json \<Rightarrow> py_error + json" where
  "py_get (JObject d) k dflt = Inr (case dict_lookup d k of None \<Rightarrow> dflt | Some v \<Rightarrow> v)"
| "py_get _ k dflt = Inl AttributeError"

text \<open>What the pipeline hands back: a value that \<^verbatim>\<open>jsonify\<close> can encode, or an object that
  it cannot. \<^verbatim>\<open>jsonify({k: v})\<close> raises \<^verbatim>\<open>TypeError\<close> on the second kind.\<close>

datatype pyvalue = Plain json | Opaque

fun jsonify :: "string \<Rightarrow> pyvalue \<Rightarrow> py_error + json" where
  "jsonify k (Plain v) = Inr (JObject [(k, v)])"
| "jsonify k Opaque = Inl TypeError"

text \<open>What a call of the view function ends with: a response (status and JSON body) or
  an exception that leaves the function.\<close>

datatype outcome = Response nat json | Raised py_error

text \<open>
  Lines 14 to 21, the statements of \<^verbatim>\<open>kickoff\<close>, without their indentation:
  \<^verbatim>\<open>
  data = request.get_json()
  text_to_process = data.get("text", None)
  if not text_to_process:
      return jsonify({"message": "Text not provided"}), 400
  result = DataGatheringCrew().crew().kickoff(inputs={"text": text_to_process})
  return jsonify({"result": result})
  \<close>
  This is what a call of the view would do in a module that has been loaded. The
  argument \<open>data\<close> is the parsed body that \<^verbatim>\<open>request.get_json()\<close> returned. The argument
  \<open>pipeline\<close> is \<^verbatim>\<open>DataGatheringCrew().crew().kickoff\<close>, the external engine: it gets the
  \<^verbatim>\<open>inputs\<close> dict and returns a result or raises. The first component of the result is the
  list of the \<^verbatim>\<open>inputs\<close> of every pipeline invocation the call made, in order. A view
  that returns only a body is answered with status 200.
\<close>

definition kickoff :: "(json \<Rightarrow> py_error + pyvalue) \<Rightarrow> json \<Rightarrow> json list \<times> outcome" where
  "kickoff pipeline data =
     (case py_get data ''text'' JNull of
        Inl e \<Rightarrow> ([], Raised e)
      | Inr text_to_process \<Rightarrow>
          if \<not> truthy text_to_process
          then (case jsonify ''message'' (Plain (JString ''Text not provided'')) of
                  Inl e \<Rightarrow> ([], Raised e)
                | Inr body \<Rightarrow> ([], Response 400 body))
          else (let inputs = JObject [(''text'', text_to_process)] in
                case pipeline inputs of
                  Inl e \<Rightarrow> ([inputs], Raised e)
                | Inr result \<Rightarrow>
                    (case jsonify ''result'' result of
                       Inl e \<Rightarrow> ([inputs], Raised e)
                     | Inr body \<Rightarrow> ([inputs], Response 200 body))))"

text \<open>A request to \<^verbatim>\<open>/extract\<close> of the program as it is stored.\<close>

definition post_extract ::
    "(json \<Rightarrow> py_error + pyvalue) \<Rightarrow> json \<Rightarrow> py_error + json list \<times> outcome" where
  "post_extract pipeline data = serve main_py (kickoff pipeline) data"

section \<open>The configuration patcher (update_mcp.py)\<close>

subsection \<open>The statements on JSON values\<close>

text \<open>
  \<^verbatim>\<open>k in x\<close> for a string \<open>k\<close>: key membership on a dict, element equality on a list,
  substring search on a string; a number, a boolean and \<^verbatim>\<open>None\<close> are not iterable and
  raise \<^verbatim>\<open>TypeError\<close>.
\<close>

fun py_contains :: "json \<Rightarrow> string \<Rightarrow> py_error + bool" where
  "py_contains (JObject d) k = Inr (dict_contains d k)"
| "py_contains (JArray xs) k = Inr (List.member xs (JString k))"
| "py_contains (JString s) k = Inr (sublist k s)"
| "py_contains _ k = Inl TypeError"

text \<open>\<^verbatim>\<open>x[k] = v\<close> for a string \<open>k\<close>: only a dict takes a string key; a list wants an
  integer index, every other value supports no item assignment.\<close>

fun py_setitem :: "json \<Rightarrow> string \<Rightarrow> json \<Rightarrow> py_error + json" where
  "py_setitem (JObject d) k v = Inr (JObject (dict_setitem d k v))"
| "py_setitem _ k v = Inl TypeError"

text \<open>\<^verbatim>\<open>x[k]\<close> for a string \<open>k\<close>: \<^verbatim>\<open>KeyError\<close> on a dict without the key, \<^verbatim>\<open>TypeError\<close> on
  every value that is not a dict.\<close>

fun py_getitem :: "json \<Rightarrow> string \<Rightarrow> py_error + json" where
  "py_getitem (JObject d) k = (case dict_lookup d k of None \<Rightarrow> Inl KeyError | Some v \<Rightarrow> Inr v)"
| "py_getitem _ k = Inl TypeError"

definition pearls_config :: json where
  "pearls_config =
     JObject [(''httpUrl'', JString ''https://pearls.infiniterealms.tech/mcp''),
              (''headers'',
               JObject [(''Authorization'',
                         JString ''Bearer pearl_e4u9x83zvURFiVN3tdWCKr-wSERfGhtQ'')])]"

text \<open>
  Lines 17 to 20 of the script:
  \<^verbatim>\<open>
  if "mcpServers" not in settings:
      settings["mcpServers"] = {}
  settings["mcpServers"]["pearls"] = pearls_config
  \<close>
  The last statement reads \<^verbatim>\<open>settings["mcpServers"]\<close> and assigns into the object it
  gets. That object is the one stored in \<open>settings\<close>, so the assignment is seen there: the
  model stores the updated object back under the same key.
\<close>

definition patch_settings :: "json \<Rightarrow> py_error + json" where
  "patch_settings settings =
     (case py_contains settings ''mcpServers'' of
        Inl e \<Rightarrow> Inl e
      | Inr present \<Rightarrow>
          (case (if \<not> present then py_setitem settings ''mcpServers'' (JObject [])
                 else Inr settings) of
             Inl e \<Rightarrow> Inl e
           | Inr settings1 \<Rightarrow>
               (case py_getitem settings1 ''mcpServers'' of
                  Inl e \<Rightarrow> Inl e
                | Inr servers \<Rightarrow>
                    (case py_setitem servers ''pearls'' pearls_config of
                       Inl e \<Rightarrow> Inl e
                     | Inr servers' \<Rightarrow> py_setitem settings1 ''mcpServers'' servers'))))"

subsection \<open>Serialisation: json.dump with indent=2\<close>

text \<open>
  The text that \<^verbatim>\<open>json.dump(settings, f, indent=2)\<close> writes, after the standard library's
  encoder with its defaults: \<^verbatim>\<open>ensure_ascii=True\<close>, item separator \<^verbatim>\<open>,\<close> followed by a
  line break and the indentation, key separator \<^verbatim>\<open>: \<close>, keys in the dict's own order,
  \<^verbatim>\<open>[]\<close> and \<^verbatim>\<open>{}\<close> for the empty containers, no line break at the end.
\<close>

definition digit_char :: "nat \<Rightarrow> char" where
  "digit_char n = ''0123456789abcdef'' ! (n mod 16)"

text \<open>A string is written between double quotes; the quote, the backslash and every
  character outside the printable ASCII range are escaped.\<close>

definition escape_char :: "char \<Rightarrow> string" where
  "escape_char c =
     (if c = CHR 0x22 then [CHR 0x5C, CHR 0x22]
      else if c = CHR 0x5C then [CHR 0x5C, CHR 0x5C]
      else if c = CHR 0x0A then [CHR 0x5C, CHR ''n'']
      else if c = CHR 0x0D then [CHR 0x5C, CHR ''r'']
      else if c = CHR 0x09 then [CHR 0x5C, CHR ''t'']
      else if c = CHR 0x08 then [CHR 0x5C, CHR ''b'']
      else if c = CHR 0x0C then [CHR 0x5C, CHR ''f'']
      else if 0x20 \<le> (of_char c :: nat) \<and> (of_char c :: nat) \<le> 0x7E then [c]
      else [CHR 0x5C, CHR ''u'', CHR ''0'', CHR ''0'',
            digit_char ((of_char c :: nat) div 16), digit_char (of_char c :: nat)])"

definition encode_basestring_ascii :: "string \<Rightarrow> string" where
  "encode_basestring_ascii s = [CHR 0x22] @ concat (map escape_char s) @ [CHR 0x22]"

function digits :: "nat \<Rightarrow> string" where
  "digits n = (if n < 10 then [digit_char n] else digits (n div 10) @ [digit_char (n mod 10)])"
  by pat_completeness auto
termination
  by (relation "measure id") auto

definition int_repr :: "int \<Rightarrow> string" where
  "int_repr i = (if i < 0 then CHR ''-'' # digits (nat (- i)) else digits (nat i))"

definition floatstr :: "string \<Rightarrow> string" where
  "floatstr r =
     (if r = ''nan'' then ''NaN''
      else if r = ''inf'' then ''Infinity''
      else if r = ''-inf'' then ''-Infinity''
      else r)"

fun join :: "'a list \<Rightarrow> 'a list list \<Rightarrow> 'a list" where
  "join sep [] = []"
| "join sep [x] = x"
| "join sep (x # y # ys) = x @ sep @ join sep (y # ys)"

definition newline_indent :: "nat \<Rightarrow> string" where
  "newline_indent level = CHR 0x0A # concat (replicate level ''  '')"

fun iterencode :: "nat \<Rightarrow> json \<Rightarrow> string" where
  "iterencode level JNull = ''null''"
| "iterencode level (JBool b) = (if b then ''true'' else ''false'')"
| "iterencode level (JInt i) = int_repr i"
| "iterencode level (JFloat r) = floatstr r"
| "iterencode level (JString s) = encode_basestring_ascii s"
| "iterencode level (JArray xs) =
     (if xs = [] then ''[]''
      else ''['' @ newline_indent (level + 1)
           @ join ('','' @ newline_indent (level + 1)) (map (iterencode (level + 1)) xs)
           @ newline_indent level @ '']'')"
| "iterencode level (JObject d) =
     (if d = [] then ''{}''
      else ''{'' @ newline_indent (level + 1)
           @ join ('','' @ newline_indent (level + 1))
               (map (\<lambda>(k, v). encode_basestring_ascii k @ '': '' @ iterencode (level + 1) v) d)
           @ newline_indent level @ ''}'')"

definition dumps_indent2 :: "json \<Rightarrow> string" where
  "dumps_indent2 obj = iterencode 0 obj"

subsection \<open>Files and standard output\<close>

text \<open>
  The part of the machine the script acts on. A file has its text and the two permissions
  the script can run into. Files are found by the path string the program passes to
  \<^verbatim>\<open>open\<close> (no links). \<open>can_create\<close> says whether a new file may be created in the working
  directory. \<open>fsize_limit\<close> is the process's limit on the size of a file it writes, if it
  has one: a write beyond it stores the text up to the limit and fails. \<open>io_log\<close> records
  every call of \<^verbatim>\<open>open\<close>, \<open>stdout\<close> every printed line.
\<close>

record file_entry =
  content :: string
  readable :: bool
  writable :: bool

datatype io_op = OpenRead string | OpenWrite string

text \<open>A printed line: a fixed text, or a fixed text followed by \<^verbatim>\<open>str(e)\<close> of an
  exception \<open>e\<close>, whose wording belongs to the interpreter.\<close>

datatype out_line = Line string | LineExc string py_error

record world =
  home :: string
  files :: "string \<Rightarrow> file_entry option"
  can_create :: bool
  fsize_limit :: "nat option"
  io_log :: "io_op list"
  stdout :: "out_line list"

text \<open>\<^verbatim>\<open>os.path.expanduser("~/.gemini/settings.json")\<close>: the leading \<^verbatim>\<open>~\<close> is replaced by the
  home directory without its trailing slashes.\<close>

definition rstrip_slash :: "string \<Rightarrow> string" where
  "rstrip_slash s = rev (dropWhile (\<lambda>c. c = CHR ''/'') (rev s))"

definition settings_path :: "world \<Rightarrow> string" where
  "settings_path w = rstrip_slash (home w) @ ''/.gemini/settings.json''"

definition output_path :: string where
  "output_path = ''temp_settings.json''"

text \<open>\<^verbatim>\<open>open(p, 'r')\<close> followed by reading the whole file.\<close>

definition read_file :: "world \<Rightarrow> string \<Rightarrow> (py_error + string) \<times> world" where
  "read_file w p =
     (let w' = w\<lparr>io_log := io_log w @ [OpenRead p]\<rparr> in
      case files w p of
        None \<Rightarrow> (Inl FileNotFoundError, w')
      | Some f \<Rightarrow> if readable f then (Inr (content f), w') else (Inl PermissionError, w'))"

text \<open>\<^verbatim>\<open>open(p, 'w')\<close>: an existing file is emptied, a missing one is created empty.\<close>

definition open_write :: "world \<Rightarrow> string \<Rightarrow> py_error option \<times> world" where
  "open_write w p =
     (let w' = w\<lparr>io_log := io_log w @ [OpenWrite p]\<rparr> in
      case files w p of
        None \<Rightarrow>
          if can_create w
          then (None, w'\<lparr>files := (files w)(p \<mapsto> \<lparr>content = [], readable = True, writable = True\<rparr>)\<rparr>)
          else (Some PermissionError, w')
      | Some f \<Rightarrow>
          if writable f
          then (None, w'\<lparr>files := (files w)(p \<mapsto> f\<lparr>content := []\<rparr>)\<rparr>)
          else (Some PermissionError, w'))"

text \<open>Writing a text to the file opened at \<open>p\<close> and closing it.\<close>

definition write_file :: "world \<Rightarrow> string \<Rightarrow> string \<Rightarrow> py_error option \<times> world" where
  "write_file w p s =
     (case files w p of
        None \<Rightarrow> (Some OSError, w)
      | Some f \<Rightarrow>
          (case fsize_limit w of
             None \<Rightarrow> (None, w\<lparr>files := (files w)(p \<mapsto> f\<lparr>content := content f @ s\<rparr>)\<rparr>)
           | Some n \<Rightarrow>
               if length (content f @ s) \<le> n
               then (None, w\<lparr>files := (files w)(p \<mapsto> f\<lparr>content := content f @ s\<rparr>)\<rparr>)
               else (Some OSError,
                     w\<lparr>files := (files w)(p \<mapsto> f\<lparr>content := take n (content f @ s)\<rparr>)\<rparr>)))"

definition print_line :: "out_line \<Rightarrow> world \<Rightarrow> world" where
  "print_line l w = w\<lparr>stdout := stdout w @ [l]\<rparr>"

subsection \<open>The script\<close>

text \<open>
  \<^verbatim>\<open>
  try:
      with open(settings_path, 'r') as f:
          settings = json.load(f)
      ...
      with open("temp_settings.json", 'w') as f:
          json.dump(settings, f, indent=2)
      print("Successfully updated settings configuration.")
  except Exception as e:
      print(f"Error updating settings: {e}")
  \<close>
  \<open>handler\<close> is the \<^verbatim>\<open>except\<close> clause. The argument \<open>json_loads\<close> is the standard
  library's parser, from the text of a file to the value or to the exception it raises.
  The script is the whole module: its result is the machine it leaves behind when the
  interpreter reaches the end of the file.
\<close>

definition handler :: "py_error \<Rightarrow> world \<Rightarrow> world" where
  "handler e w = print_line (LineExc ''Error updating settings: '' e) w"

definition update_mcp :: "(string \<Rightarrow> py_error + json) \<Rightarrow> world \<Rightarrow> world" where
  "update_mcp json_loads w =
     (case read_file w (settings_path w) of
        (Inl e, w1) \<Rightarrow> handler e w1
      | (Inr txt, w1) \<Rightarrow>
          (case json_loads txt of
             Inl e \<Rightarrow> handler e w1
           | Inr settings \<Rightarrow>
               (case patch_settings settings of
                  Inl e \<Rightarrow> handler e w1
                | Inr settings' \<Rightarrow>
                    (case open_write w1 output_path of
                       (Some e, w2) \<Rightarrow> handler e w2
                     | (None, w2) \<Rightarrow>
                         (case write_file w2 output_path (dumps_indent2 settings') of
                            (Some e, w3) \<Rightarrow> handler e w3
                          | (None, w3) \<Rightarrow>
                              print_line (Line ''Successfully updated settings configuration.'') w3)))))"

subsection \<open>Notions used to state the properties of the script\<close>

text \<open>The exception, if any, that the statements before \<^verbatim>\<open>json.dump\<close> raise: reading the
  settings file, parsing it, lines 17 to 20, opening the output file.\<close>

definition raised_before_write :: "(string \<Rightarrow> py_error + json) \<Rightarrow> world \<Rightarrow> py_error option" where
  "raised_before_write json_loads w =
     (case fst (read_file w (settings_path w)) of
        Inl e \<Rightarrow> Some e
      | Inr txt \<Rightarrow>
          (case json_loads txt of
             Inl e \<Rightarrow> Some e
           | Inr settings \<Rightarrow>
               (case patch_settings settings of
                  Inl e \<Rightarrow> Some e
                | Inr settings' \<Rightarrow> fst (open_write w output_path))))"

text \<open>Whether \<^verbatim>\<open>open(p, 'w')\<close> succeeds, and whether a text fits under the size limit.\<close>

definition may_open_for_writing :: "world \<Rightarrow> string \<Rightarrow> bool" where
  "may_open_for_writing w p = (case files w p of None \<Rightarrow> can_create w | Some g \<Rightarrow> writable g)"

definition fits :: "world \<Rightarrow> string \<Rightarrow> bool" where
  "fits w s = (case fsize_limit w of None \<Rightarrow> True | Some n \<Rightarrow> length s \<le> n)"

text \<open>The entry of a file right after \<^verbatim>\<open>open(p, 'w')\<close>, and the part of a text that a
  write stores under the size limit.\<close>

definition opened_entry :: "world \<Rightarrow> string \<Rightarrow> file_entry" where
  "opened_entry w p =
     (case files w p of
        None \<Rightarrow> \<lparr>content = [], readable = True, writable = True\<rparr>
      | Some g \<Rightarrow> g\<lparr>content := []\<rparr>)"

definition stored_part :: "nat option \<Rightarrow> string \<Rightarrow> string" where
  "stored_part limit s = (case limit of None \<Rightarrow> s | Some n \<Rightarrow> take n s)"

text \<open>Whether a value is a mapping, and whether lines 17 to 20 go through on a document:
  it is a mapping whose \<^verbatim>\<open>mcpServers\<close>, when present, is a mapping. \<open>servers_of\<close> is the
  collection under \<^verbatim>\<open>mcpServers\<close> before the script runs, empty when the key is absent.\<close>

fun is_mapping :: "json \<Rightarrow> bool" where
  "is_mapping (JObject d) = True"
| "is_mapping _ = False"

definition patchable :: "json \<Rightarrow> bool" where
  "patchable doc =
     (case doc of
        JObject d \<Rightarrow> (case dict_lookup d ''mcpServers'' of None \<Rightarrow> True | Some v \<Rightarrow> is_mapping v)
      | _ \<Rightarrow> False)"

definition servers_of :: "(string \<times> json) list \<Rightarrow> (string \<times> json) list" where
  "servers_of d = (case dict_lookup d ''mcpServers'' of Some (JObject s) \<Rightarrow> s | _ \<Rightarrow> [])"

subsection \<open>Scenario D\<close>

text \<open>The settings document of the scenario, the document the scenario expects in
  \<^verbatim>\<open>temp_settings.json\<close>, and that document as text with an indentation of two spaces.\<close>

definition scenario_D_settings :: json where
  "scenario_D_settings =
     JObject [(''mcpServers'', JObject [(''other'', JObject [(''httpUrl'', JString ''x'')])])]"

definition scenario_D_merged :: json where
  "scenario_D_merged =
     JObject [(''mcpServers'',
               JObject [(''other'', JObject [(''httpUrl'', JString ''x'')]),
                        (''pearls'',
                         JObject [(''httpUrl'', JString ''https://pearls.infiniterealms.tech/mcp''),
                                  (''headers'',
                                   JObject [(''Authorization'',
                                     JString ''Bearer pearl_e4u9x83zvURFiVN3tdWCKr-wSERfGhtQ'')])])])]"

definition scenario_D_text :: string where
  "scenario_D_text = join [CHR 0x0A]
     [''{'',
      ''  '' @ quoted ''mcpServers'' @ '': {'',
      ''    '' @ quoted ''other'' @ '': {'',
      ''      '' @ quoted ''httpUrl'' @ '': '' @ quoted ''x'',
      ''    },'',
      ''    '' @ quoted ''pearls'' @ '': {'',
      ''      '' @ quoted ''httpUrl'' @ '': '' @ quoted ''https://pearls.infiniterealms.tech/mcp'' @ '','',
      ''      '' @ quoted ''headers'' @ '': {'',
      ''        '' @ quoted ''Authorization'' @ '': ''
                   @ quoted ''Bearer pearl_e4u9x83zvURFiVN3tdWCKr-wSERfGhtQ'',
      ''      }'',
      ''    }'',
      ''  }'',
      ''}'']"

subsection \<open>Sample machines\<close>

text \<open>
  Concrete inputs on which the script is run below. \<open>sample_loads\<close> is the parser on the
  texts of the sample files: each text with the value \<^verbatim>\<open>json.loads\<close> gives for it; a text
  outside the table counts as malformed. \<open>sample_world txt limit\<close> is a machine with one
  file, the settings file with the text \<open>txt\<close>, in the home directory \<^verbatim>\<open>/home/user\<close>.
\<close>

definition sample_text_D :: string where
  "sample_text_D =
     ''{'' @ quoted ''mcpServers'' @ '': {'' @ quoted ''other'' @ '': {''
       @ quoted ''httpUrl'' @ '': '' @ quoted ''x'' @ ''}}}''"

definition sample_text_E :: string where
  "sample_text_E = ''{'' @ quoted ''theme'' @ '': '' @ quoted ''dark'' @ ''}''"

definition sample_text_F :: string where
  "sample_text_F =
     ''{'' @ quoted ''theme'' @ '': '' @ quoted ''dark'' @ '', '' @ quoted ''mcpServers''
       @ '': '' @ quoted ''none'' @ ''}''"

definition sample_documents :: "(string \<times> json) list" where
  "sample_documents =
     [(sample_text_D, scenario_D_settings),
      (sample_text_E, JObject [(''theme'', JString ''dark'')]),
      (sample_text_F, JObject [(''theme'', JString ''dark''), (''mcpServers'', JString ''none'')])]"

definition sample_loads :: "string \<Rightarrow> py_error + json" where
  "sample_loads s =
     (case map_of sample_documents s of None \<Rightarrow> Inl JSONDecodeError | Some v \<Rightarrow> Inr v)"

definition sample_world :: "string \<Rightarrow> nat option \<Rightarrow> world" where
  "sample_world txt limit =
     \<lparr>home = ''/home/user'',
      files = [''/home/user/.gemini/settings.json''
                 \<mapsto> \<lparr>content = txt, readable = True, writable = True\<rparr>],
      can_create = True,
      fsize_limit = limit,
      io_log = [],
      stdout = []\<rparr>"

section \<open>Properties of the HTTP handler\<close>

subsection \<open>The file does not compile\<close>

lemma main_py_first_statement:
  "List.find is_code_line main_py
     = Some ''      from data_gathering_crew.crew import DataGatheringCrew''"
  by (simp add: main_py_def is_code_line_def is_blank_def)

lemma compile_main_py: "compile_module main_py = Some IndentationError"
  by (simp add: compile_module_def main_py_first_statement)

lemma post_extract_never_served: "post_extract pipeline data = Inl IndentationError"
  by (simp add: post_extract_def serve_def compile_main_py)

text \<open>
  C1. The request with the body \<^verbatim>\<open>{}\<close>, which lacks the key \<^verbatim>\<open>text\<close>, gets no 400 response
  from the program as it is stored: the first statement of \<^verbatim>\<open>main.py\<close> is indented, the
  file is refused with \<^verbatim>\<open>IndentationError\<close>, and no view, whatever it does, is ever called.
\<close>

theorem extract_missing_text_not_served:
  "serve main_py view (JObject []) = Inl IndentationError"
  by (simp add: serve_def compile_main_py)

text \<open>
  C2. The request of Scenario A, with a non-empty \<^verbatim>\<open>text\<close>, gets no 200 response from the
  program as it is stored and the pipeline is not invoked: the file is refused with
  \<^verbatim>\<open>IndentationError\<close> before any view exists.
\<close>

theorem extract_valid_text_not_served:
  "serve main_py view
     (JObject [(''text'', JString ''Invoice from Acme Corp to Globex Inc for consulting services.'')])
     = Inl IndentationError"
  by (simp add: serve_def compile_main_py)



subsection \<open>What lines 14 to 21 would do in a loaded module\<close>

text \<open>The statements of the view on their own. By \<open>post_extract_never_served\<close> the program
  as it is stored never runs them.\<close>

lemma kickoff_body_text_not_provided:
  assumes "dict_lookup d ''text'' = None
           \<or> dict_lookup d ''text'' = Some (JString [])
           \<or> dict_lookup d ''text'' = Some JNull
           \<or> (\<exists>v. dict_lookup d ''text'' = Some v \<and> \<not> truthy v)"
  shows "kickoff pipeline (JObject d)
           = ([], Response 400 (JObject [(''message'', JString ''Text not provided'')]))"
  using assms by (auto simp: kickoff_def)

lemma kickoff_body_success:
  assumes "dict_lookup d ''text'' = Some t" and "truthy t"
    and "pipeline (JObject [(''text'', t)]) = Inr (Plain result)"
  shows "kickoff pipeline (JObject d)
           = ([JObject [(''text'', t)]], Response 200 (JObject [(''result'', result)]))"
  using assms by (simp add: kickoff_def)

lemma kickoff_body_result_not_encodable:
  assumes "dict_lookup d ''text'' = Some t" and "truthy t"
    and "pipeline (JObject [(''text'', t)]) = Inr Opaque"
  shows "kickoff pipeline (JObject d) = ([JObject [(''text'', t)]], Raised TypeError)"
  using assms by (simp add: kickoff_def)

lemma kickoff_body_pipeline_raises:
  assumes "dict_lookup d ''text'' = Some t" and "truthy t"
    and "pipeline (JObject [(''text'', t)]) = Inl e"
  shows "kickoff pipeline (JObject d) = ([JObject [(''text'', t)]], Raised e)"
  using assms by (simp add: kickoff_def)

lemma kickoff_body_not_an_object:
  assumes "\<forall>d. data \<noteq> JObject d"
  shows "kickoff pipeline data = ([], Raised AttributeError)"
  using assms by (cases data) (simp_all add: kickoff_def)

section \<open>Properties of the configuration patcher\<close>

subsection \<open>Dictionaries and lines 17 to 20\<close>

lemma dict_lookup_setitem:
  "dict_lookup (dict_setitem d k v) k' = (if k' = k then Some v else dict_lookup d k')"
  by (induction d) (auto simp: dict_lookup_def)

lemma dict_setitem_twice: "dict_setitem (dict_setitem d k v') k v = dict_setitem d k v"
  by (induction d) auto

lemma dict_setitem_absent: "dict_lookup d k = None \<Longrightarrow> dict_setitem d k v = d @ [(k, v)]"
  by (induction d) (auto simp: dict_lookup_def split: if_splits)

lemma dict_setitem_keys:
  "map fst (dict_setitem d k v) = (if dict_contains d k then map fst d else map fst d @ [k])"
  by (induction d) (auto simp: dict_lookup_def dict_contains_def split: option.splits)

lemma dict_setitem_same: "dict_lookup d k = Some v \<Longrightarrow> dict_setitem d k v = d"
  by (induction d) (auto simp: dict_lookup_def split: if_splits)

lemma patch_settings_absent:
  assumes "dict_lookup d ''mcpServers'' = None"
  shows "patch_settings (JObject d) =
           Inr (JObject (d @ [(''mcpServers'', JObject [(''pearls'', pearls_config)])]))"
proof -
  have "dict_lookup (d @ [(''mcpServers'', JObject [])]) ''mcpServers'' = Some (JObject [])"
    using assms by (simp add: dict_lookup_def map_add_def)
  moreover have "dict_setitem (d @ [(''mcpServers'', JObject [])]) ''mcpServers'' v
      = d @ [(''mcpServers'', v)]" for v
    using assms by (induction d) (auto simp: dict_lookup_def split: if_splits)
  ultimately show ?thesis
    using assms by (simp add: patch_settings_def dict_contains_def dict_setitem_absent)
qed

lemma patch_settings_present:
  assumes "dict_lookup d ''mcpServers'' = Some (JObject s)"
  shows "patch_settings (JObject d) =
           Inr (JObject (dict_setitem d ''mcpServers''
                  (JObject (dict_setitem s ''pearls'' pearls_config))))"
  using assms by (simp add: patch_settings_def dict_contains_def)

lemma patch_settings_not_mapping:
  assumes "dict_lookup d ''mcpServers'' = Some v" and "\<forall>s. v \<noteq> JObject s"
  shows "patch_settings (JObject d) = Inl TypeError"
  using assms by (cases v) (simp_all add: patch_settings_def dict_contains_def)

lemma patch_settings_not_object:
  assumes "\<forall>d. doc \<noteq> JObject d"
  shows "patch_settings doc = Inl TypeError"
  using assms by (cases doc) (simp_all add: patch_settings_def)

lemma patch_settings_Inr_shape:
  assumes "patch_settings doc = Inr out"
  shows "\<exists>d. doc = JObject d \<and>
           (dict_lookup d ''mcpServers'' = None \<or> (\<exists>s. dict_lookup d ''mcpServers'' = Some (JObject s)))"
proof (cases "\<exists>d. doc = JObject d")
  case False
  then show ?thesis using assms patch_settings_not_object by auto
next
  case True
  then obtain d where d: "doc = JObject d" by blast
  show ?thesis
  proof (cases "dict_lookup d ''mcpServers''")
    case None
    then show ?thesis using d by simp
  next
    case (Some v)
    then show ?thesis using d assms patch_settings_not_mapping[OF Some] by (cases v) auto
  qed
qed

lemma patch_settings_idem:
  assumes "patch_settings doc = Inr out"
  shows "patch_settings out = Inr out"
proof -
  obtain d where d: "doc = JObject d"
    and c: "dict_lookup d ''mcpServers'' = None \<or> (\<exists>s. dict_lookup d ''mcpServers'' = Some (JObject s))"
    using patch_settings_Inr_shape[OF assms] by blast
  from c show ?thesis
  proof
    assume n: "dict_lookup d ''mcpServers'' = None"
    then have out: "out = JObject (d @ [(''mcpServers'', JObject [(''pearls'', pearls_config)])])"
      using assms d patch_settings_absent by simp
    have l: "dict_lookup (d @ [(''mcpServers'', JObject [(''pearls'', pearls_config)])]) ''mcpServers''
        = Some (JObject [(''pearls'', pearls_config)])"
      using n by (simp add: dict_lookup_def map_add_def)
    show ?thesis unfolding out
      by (simp add: patch_settings_present[OF l] dict_setitem_same[OF l])
  next
    assume "\<exists>s. dict_lookup d ''mcpServers'' = Some (JObject s)"
    then obtain s where s: "dict_lookup d ''mcpServers'' = Some (JObject s)" by blast
    let ?s' = "dict_setitem s ''pearls'' pearls_config"
    have out: "out = JObject (dict_setitem d ''mcpServers'' (JObject ?s'))"
      using assms d patch_settings_present[OF s] by simp
    have l: "dict_lookup (dict_setitem d ''mcpServers'' (JObject ?s')) ''mcpServers'' = Some (JObject ?s')"
      by (simp add: dict_lookup_setitem)
    show ?thesis unfolding out
      by (simp add: patch_settings_present[OF l] dict_setitem_twice)
  qed
qed

subsection \<open>Runs of the script\<close>

lemma settings_path_neq_output: "settings_path w \<noteq> output_path"
proof
  assume "settings_path w = output_path"
  then have "set (settings_path w) = set output_path" by simp
  moreover have "CHR ''/'' \<in> set (settings_path w)" by (simp add: settings_path_def)
  moreover have "CHR ''/'' \<notin> set output_path" by (simp add: output_path_def)
  ultimately show False by simp
qed

lemma settings_path_cong: "home w' = home w \<Longrightarrow> settings_path w' = settings_path w"
  by (simp add: settings_path_def)

lemma update_mcp_early:
  assumes "raised_before_write L w = Some e"
  shows "files (update_mcp L w) = files w"
    and "stdout (update_mcp L w) = stdout w @ [LineExc ''Error updating settings: '' e]"
    and "home (update_mcp L w) = home w"
    and "can_create (update_mcp L w) = can_create w"
    and "fsize_limit (update_mcp L w) = fsize_limit w"
  using assms
  by (auto simp: raised_before_write_def update_mcp_def read_file_def open_write_def handler_def
      print_line_def Let_def split: option.splits sum.splits if_splits)

lemma raised_before_write_None:
  assumes "raised_before_write L w = None"
  shows "\<exists>f s s'. files w (settings_path w) = Some f \<and> readable f \<and> L (content f) = Inr s
          \<and> patch_settings s = Inr s' \<and> may_open_for_writing w output_path"
  using assms
  by (auto simp: raised_before_write_def read_file_def open_write_def may_open_for_writing_def
      Let_def split: option.splits sum.splits if_splits)

lemma update_mcp_late:
  assumes "files w (settings_path w) = Some f" and "readable f" and "L (content f) = Inr s"
    and "patch_settings s = Inr s'" and "may_open_for_writing w output_path"
  shows "files (update_mcp L w)
           = (files w)(output_path \<mapsto>
                (opened_entry w output_path)\<lparr>content := stored_part (fsize_limit w) (dumps_indent2 s')\<rparr>)"
    and "stdout (update_mcp L w)
           = stdout w @ [if fits w (dumps_indent2 s')
                         then Line ''Successfully updated settings configuration.''
                         else LineExc ''Error updating settings: '' OSError]"
    and "io_log (update_mcp L w) = io_log w @ [OpenRead (settings_path w), OpenWrite output_path]"
    and "home (update_mcp L w) = home w"
    and "can_create (update_mcp L w) = can_create w"
    and "fsize_limit (update_mcp L w) = fsize_limit w"
  using assms
  by (auto simp: update_mcp_def read_file_def open_write_def write_file_def handler_def
      print_line_def Let_def may_open_for_writing_def opened_entry_def stored_part_def fits_def
      split: option.splits)

lemma patch_D: "patch_settings scenario_D_settings = Inr scenario_D_merged"
  by (simp add: scenario_D_settings_def scenario_D_merged_def patch_settings_def
      dict_contains_def dict_lookup_def pearls_config_def)

lemma dumps_D: "dumps_indent2 scenario_D_merged = scenario_D_text"
  by (simp add: scenario_D_merged_def scenario_D_text_def dumps_indent2_def
      encode_basestring_ascii_def escape_char_def newline_indent_def quoted_def)

lemma fits_stored: "fits w s \<Longrightarrow> stored_part (fsize_limit w) s = s"
  by (simp add: fits_def stored_part_def split: option.splits)

lemma sample_settings_path [simp]:
  "settings_path (sample_world txt limit) = ''/home/user/.gemini/settings.json''"
  by (simp add: settings_path_def sample_world_def rstrip_slash_def)

lemma sample_world_simps [simp]:
  "files (sample_world txt limit) ''/home/user/.gemini/settings.json''
     = Some \<lparr>content = txt, readable = True, writable = True\<rparr>"
  "files (sample_world txt limit) ''temp_settings.json'' = None"
  "can_create (sample_world txt limit)"
  "fsize_limit (sample_world txt limit) = limit"
  "stdout (sample_world txt limit) = []"
  "io_log (sample_world txt limit) = []"
  by (simp_all add: sample_world_def)

lemma sample_loads_D: "sample_loads sample_text_D = Inr scenario_D_settings"
  by (simp add: sample_loads_def sample_documents_def)

lemma sample_loads_E: "sample_loads sample_text_E = Inr (JObject [(''theme'', JString ''dark'')])"
  by (simp add: sample_loads_def sample_documents_def sample_text_D_def sample_text_E_def quoted_def)

lemma sample_loads_F:
  "sample_loads sample_text_F
     = Inr (JObject [(''theme'', JString ''dark''), (''mcpServers'', JString ''none'')])"
  by (simp add: sample_loads_def sample_documents_def sample_text_D_def sample_text_E_def
      sample_text_F_def quoted_def)

text \<open>
  C3. Scenario D. When the settings file holds the document
  \<^verbatim>\<open>{"mcpServers": {"other": {"httpUrl": "x"}}}\<close>, and the output file can be opened and
  written, lines 17 to 20 turn the document into the original plus the entry
  \<^verbatim>\<open>mcpServers.pearls\<close>, the text of that document with an indentation of two spaces is
  \<open>scenario_D_text\<close>, and the script leaves exactly that text in \<^verbatim>\<open>temp_settings.json\<close>;
  every other file, the settings file among them, is as before, and the success line is
  printed.
\<close>

theorem scenario_D:
  assumes "files w (settings_path w) = Some f" and "readable f"
    and "json_loads (content f) = Inr scenario_D_settings"
    and "may_open_for_writing w output_path"
    and "fits w scenario_D_text"
  shows "patch_settings scenario_D_settings = Inr scenario_D_merged
       \<and> dumps_indent2 scenario_D_merged = scenario_D_text
       \<and> files (update_mcp json_loads w)
           = (files w)(output_path \<mapsto> (opened_entry w output_path)\<lparr>content := scenario_D_text\<rparr>)
       \<and> files (update_mcp json_loads w) (settings_path w) = Some f
       \<and> stdout (update_mcp json_loads w)
           = stdout w @ [Line ''Successfully updated settings configuration.'']"
proof -
  note late = update_mcp_late [where L = json_loads and s = scenario_D_settings,
      OF assms(1) assms(2) assms(3) patch_D assms(4)]
  have fit: "fits w (dumps_indent2 scenario_D_merged)"
    using assms(5) by (simp add: dumps_D)
  have "files (update_mcp json_loads w)
          = (files w)(output_path \<mapsto> (opened_entry w output_path)\<lparr>content := scenario_D_text\<rparr>)"
    using late(1) fits_stored [OF fit] by (simp add: dumps_D)
  moreover from this have "files (update_mcp json_loads w) (settings_path w) = Some f"
    using assms(1) settings_path_neq_output [of w] by simp
  moreover have "stdout (update_mcp json_loads w)
          = stdout w @ [Line ''Successfully updated settings configuration.'']"
    using late(2) fit by simp
  ultimately show ?thesis using patch_D dumps_D by simp
qed

theorem scenario_D_witness:
  "files (update_mcp sample_loads (sample_world sample_text_D None)) output_path
     = Some \<lparr>content = scenario_D_text, readable = True, writable = True\<rparr>
   \<and> files (update_mcp sample_loads (sample_world sample_text_D None))
         ''/home/user/.gemini/settings.json''
     = Some \<lparr>content = sample_text_D, readable = True, writable = True\<rparr>
   \<and> stdout (update_mcp sample_loads (sample_world sample_text_D None))
     = [Line ''Successfully updated settings configuration.'']"
  using scenario_D [of "sample_world sample_text_D None"
       "\<lparr>content = sample_text_D, readable = True, writable = True\<rparr>" sample_loads]
  by (simp add: sample_loads_D may_open_for_writing_def fits_def opened_entry_def output_path_def)

lemma servers_of_absent: "dict_lookup d ''mcpServers'' = None \<Longrightarrow> servers_of d = []"
  by (simp add: servers_of_def)

lemma servers_of_present: "dict_lookup d ''mcpServers'' = Some (JObject s) \<Longrightarrow> servers_of d = s"
  by (simp add: servers_of_def)

lemma patchable_cases:
  "patchable doc \<longleftrightarrow> (\<exists>d. doc = JObject d \<and>
      (dict_lookup d ''mcpServers'' = None \<or> (\<exists>s. dict_lookup d ''mcpServers'' = Some (JObject s))))"
proof (cases doc)
  case (JObject d)
  show ?thesis
  proof (cases "dict_lookup d ''mcpServers''")
    case None
    then show ?thesis using JObject by (simp add: patchable_def)
  next
    case (Some v)
    then show ?thesis using JObject by (cases v) (simp_all add: patchable_def)
  qed
qed (simp_all add: patchable_def)

lemma patch_settings_exact:
  assumes "dict_lookup d ''mcpServers'' = None \<or> (\<exists>s. dict_lookup d ''mcpServers'' = Some (JObject s))"
  shows "patch_settings (JObject d)
           = Inr (JObject (dict_setitem d ''mcpServers''
                    (JObject (dict_setitem (servers_of d) ''pearls'' pearls_config))))"
  using assms
proof
  assume n: "dict_lookup d ''mcpServers'' = None"
  show ?thesis
    by (simp add: patch_settings_absent [OF n] servers_of_absent [OF n] dict_setitem_absent [OF n])
next
  assume "\<exists>s. dict_lookup d ''mcpServers'' = Some (JObject s)"
  then obtain s where s: "dict_lookup d ''mcpServers'' = Some (JObject s)" by blast
  show ?thesis
    by (simp add: patch_settings_present [OF s] servers_of_present [OF s])
qed

lemma patch_settings_not_patchable:
  assumes "\<not> patchable doc"
  shows "patch_settings doc = Inl TypeError"
proof (cases "\<exists>d. doc = JObject d")
  case False
  then show ?thesis using patch_settings_not_object by auto
next
  case True
  then obtain d where d: "doc = JObject d" by blast
  with assms obtain v where v: "dict_lookup d ''mcpServers'' = Some v" and nm: "\<not> is_mapping v"
    by (auto simp: patchable_def split: option.splits)
  from nm have "\<forall>s. v \<noteq> JObject s" by auto
  then show ?thesis using d patch_settings_not_mapping [OF v] by simp
qed

text \<open>
  C4. Lines 17 to 20 touch only \<^verbatim>\<open>mcpServers.pearls\<close>. On every document that is a mapping
  whose \<^verbatim>\<open>mcpServers\<close> is absent or a mapping, they return a mapping in which every
  top-level key other than \<^verbatim>\<open>mcpServers\<close> has its value, the keys keep their order
  (\<^verbatim>\<open>mcpServers\<close> is added at the end when it was absent), \<^verbatim>\<open>mcpServers\<close> is a mapping with
  \<^verbatim>\<open>pearls\<close> set to the fixed entry, and every other entry under \<^verbatim>\<open>mcpServers\<close> has its
  value and its place. On every other document they raise \<^verbatim>\<open>TypeError\<close> and return nothing.
\<close>

theorem patch_settings_frame:
  "(patchable doc \<longrightarrow>
      (\<exists>d d' s'. doc = JObject d \<and> patch_settings doc = Inr (JObject d')
         \<and> (\<forall>k. k \<noteq> ''mcpServers'' \<longrightarrow> dict_lookup d' k = dict_lookup d k)
         \<and> map fst d' = (if dict_contains d ''mcpServers'' then map fst d
                           else map fst d @ [''mcpServers''])
         \<and> dict_lookup d' ''mcpServers'' = Some (JObject s')
         \<and> dict_lookup s' ''pearls'' = Some pearls_config
         \<and> (\<forall>k. k \<noteq> ''pearls'' \<longrightarrow> dict_lookup s' k = dict_lookup (servers_of d) k)
         \<and> map fst s' = (if dict_contains (servers_of d) ''pearls'' then map fst (servers_of d)
                           else map fst (servers_of d) @ [''pearls''])))
   \<and> (\<not> patchable doc \<longrightarrow> patch_settings doc = Inl TypeError)"
proof (intro conjI impI)
  assume "patchable doc"
  then obtain d where d: "doc = JObject d"
    and c: "dict_lookup d ''mcpServers'' = None \<or> (\<exists>s. dict_lookup d ''mcpServers'' = Some (JObject s))"
    using patchable_cases by blast
  let ?s' = "dict_setitem (servers_of d) ''pearls'' pearls_config"
  let ?d' = "dict_setitem d ''mcpServers'' (JObject ?s')"
  have "patch_settings doc = Inr (JObject ?d')"
    using d patch_settings_exact [OF c] by simp
  moreover have "\<forall>k. k \<noteq> ''mcpServers'' \<longrightarrow> dict_lookup ?d' k = dict_lookup d k"
    by (simp add: dict_lookup_setitem)
  moreover have "map fst ?d' = (if dict_contains d ''mcpServers'' then map fst d
                           else map fst d @ [''mcpServers''])"
    by (rule dict_setitem_keys)
  moreover have "dict_lookup ?d' ''mcpServers'' = Some (JObject ?s')"
    by (simp add: dict_lookup_setitem)
  moreover have "dict_lookup ?s' ''pearls'' = Some pearls_config"
    by (simp add: dict_lookup_setitem)
  moreover have "\<forall>k. k \<noteq> ''pearls'' \<longrightarrow> dict_lookup ?s' k = dict_lookup (servers_of d) k"
    by (simp add: dict_lookup_setitem)
  moreover have "map fst ?s' = (if dict_contains (servers_of d) ''pearls'' then map fst (servers_of d)
                           else map fst (servers_of d) @ [''pearls''])"
    by (rule dict_setitem_keys)
  ultimately show "\<exists>d d' s'. doc = JObject d \<and> patch_settings doc = Inr (JObject d')
         \<and> (\<forall>k. k \<noteq> ''mcpServers'' \<longrightarrow> dict_lookup d' k = dict_lookup d k)
         \<and> map fst d' = (if dict_contains d ''mcpServers'' then map fst d
                           else map fst d @ [''mcpServers''])
         \<and> dict_lookup d' ''mcpServers'' = Some (JObject s')
         \<and> dict_lookup s' ''pearls'' = Some pearls_config
         \<and> (\<forall>k. k \<noteq> ''pearls'' \<longrightarrow> dict_lookup s' k = dict_lookup (servers_of d) k)
         \<and> map fst s' = (if dict_contains (servers_of d) ''pearls'' then map fst (servers_of d)
                           else map fst (servers_of d) @ [''pearls''])"
    using d by blast
next
  assume "\<not> patchable doc"
  then show "patch_settings doc = Inl TypeError" by (rule patch_settings_not_patchable)
qed

theorem patch_settings_frame_witness:
  "(\<exists>d'. patch_settings (JObject [(''theme'', JString ''dark'')]) = Inr (JObject d')
       \<and> dict_lookup d' ''theme'' = Some (JString ''dark'')
       \<and> map fst d' = [''theme'', ''mcpServers'']
       \<and> (\<exists>s'. dict_lookup d' ''mcpServers'' = Some (JObject s')
             \<and> dict_lookup s' ''pearls'' = Some pearls_config \<and> map fst s' = [''pearls'']))
   \<and> patch_settings (JObject [(''theme'', JString ''dark''), (''mcpServers'', JString ''none'')])
       = Inl TypeError"
proof
  have p: "patchable (JObject [(''theme'', JString ''dark'')])"
    by (simp add: patchable_def dict_lookup_def)
  have s: "servers_of [(''theme'', JString ''dark'')] = []"
    by (simp add: servers_of_def dict_lookup_def)
  have c: "\<not> dict_contains [(''theme'', JString ''dark'')] ''mcpServers''"
    by (simp add: dict_contains_def dict_lookup_def)
  have t: "dict_lookup [(''theme'', JString ''dark'')] ''theme'' = Some (JString ''dark'')"
    by (simp add: dict_lookup_def)
  from patch_settings_frame [of "JObject [(''theme'', JString ''dark'')]"] p
  obtain d' s' where "patch_settings (JObject [(''theme'', JString ''dark'')]) = Inr (JObject d')"
    and "\<forall>k. k \<noteq> ''mcpServers'' \<longrightarrow> dict_lookup d' k = dict_lookup [(''theme'', JString ''dark'')] k"
    and "map fst d' = (if dict_contains [(''theme'', JString ''dark'')] ''mcpServers''
                       then map fst [(''theme'', JString ''dark'')]
                       else map fst [(''theme'', JString ''dark'')] @ [''mcpServers''])"
    and "dict_lookup d' ''mcpServers'' = Some (JObject s')"
    and "dict_lookup s' ''pearls'' = Some pearls_config"
    and "map fst s' = (if dict_contains (servers_of [(''theme'', JString ''dark'')]) ''pearls''
                       then map fst (servers_of [(''theme'', JString ''dark'')])
                       else map fst (servers_of [(''theme'', JString ''dark'')]) @ [''pearls''])"
    by auto
  then show "\<exists>d'. patch_settings (JObject [(''theme'', JString ''dark'')]) = Inr (JObject d')
       \<and> dict_lookup d' ''theme'' = Some (JString ''dark'')
       \<and> map fst d' = [''theme'', ''mcpServers'']
       \<and> (\<exists>s'. dict_lookup d' ''mcpServers'' = Some (JObject s')
             \<and> dict_lookup s' ''pearls'' = Some pearls_config \<and> map fst s' = [''pearls''])"
    using s c t by (simp add: dict_contains_def dict_lookup_def)
next
  have "\<not> patchable (JObject [(''theme'', JString ''dark''), (''mcpServers'', JString ''none'')])"
    by (simp add: patchable_def dict_lookup_def)
  with patch_settings_frame [of "JObject [(''theme'', JString ''dark''), (''mcpServers'', JString ''none'')]"]
  show "patch_settings (JObject [(''theme'', JString ''dark''), (''mcpServers'', JString ''none'')])
       = Inl TypeError" by blast
qed

lemma fst_open_write:
  "fst (open_write w p)
     = (if may_open_for_writing w p then None else Some PermissionError)"
  by (simp add: open_write_def may_open_for_writing_def Let_def split: option.splits)

lemma fst_read_file:
  "fst (read_file w p)
     = (case files w p of None \<Rightarrow> Inl FileNotFoundError
        | Some f \<Rightarrow> if readable f then Inr (content f) else Inl PermissionError)"
  by (simp add: read_file_def Let_def split: option.splits)

lemma raised_before_write_cong:
  assumes "home w' = home w" and "files w' = files w" and "can_create w' = can_create w"
  shows "raised_before_write L w' = raised_before_write L w"
proof -
  have sp: "settings_path w' = settings_path w"
    using assms(1) by (rule settings_path_cong)
  have "may_open_for_writing w' output_path = may_open_for_writing w output_path"
    using assms by (simp add: may_open_for_writing_def split: option.splits)
  then have ow: "fst (open_write w' output_path) = fst (open_write w output_path)"
    by (simp add: fst_open_write)
  have rf: "fst (read_file w' (settings_path w)) = fst (read_file w (settings_path w))"
    using assms(2) by (simp add: fst_read_file)
  show ?thesis
    unfolding raised_before_write_def sp ow rf by (rule refl)
qed

lemma update_mcp_files_twice: "files (update_mcp L (update_mcp L w)) = files (update_mcp L w)"
  and update_mcp_last_twice:
    "last (stdout (update_mcp L (update_mcp L w))) = last (stdout (update_mcp L w))"
proof -
  let ?w1 = "update_mcp L w"
  have both: "files (update_mcp L ?w1) = files ?w1
      \<and> last (stdout (update_mcp L ?w1)) = last (stdout ?w1)"
  proof (cases "raised_before_write L w")
    case (Some e)
    note e1 = update_mcp_early [OF Some]
    have "raised_before_write L ?w1 = Some e"
      using raised_before_write_cong [of ?w1 w L] e1 Some by simp
    from update_mcp_early [OF this] e1 show ?thesis by simp
  next
    case None
    then obtain f s s' where f: "files w (settings_path w) = Some f" and r: "readable f"
      and l: "L (content f) = Inr s" and p: "patch_settings s = Inr s'"
      and m: "may_open_for_writing w output_path"
      using raised_before_write_None by blast
    note l1 = update_mcp_late [where L = L, OF f r l p m]
    have sp: "settings_path ?w1 = settings_path w"
      using l1(4) by (rule settings_path_cong)
    have f1: "files ?w1 (settings_path ?w1) = Some f"
      using l1(1) f sp settings_path_neq_output [of w] by simp
    have w_open: "writable (opened_entry w output_path)"
      using m by (simp add: opened_entry_def may_open_for_writing_def split: option.splits)
    have m1: "may_open_for_writing ?w1 output_path"
      using l1(1) w_open by (simp add: may_open_for_writing_def)
    note l2 = update_mcp_late [where L = L, OF f1 r l p m1]
    have oe: "opened_entry ?w1 output_path = opened_entry w output_path"
      using l1(1) by (simp add: opened_entry_def split: option.splits)
    have "files (update_mcp L ?w1) = files ?w1"
      using l2(1) l1(1) l1(6) oe by simp
    moreover have "fits ?w1 (dumps_indent2 s') = fits w (dumps_indent2 s')"
      using l1(6) by (simp add: fits_def)
    then have "last (stdout (update_mcp L ?w1)) = last (stdout ?w1)"
      using l2(2) l1(2) by simp
    ultimately show ?thesis by simp
  qed
  from both show "files (update_mcp L ?w1) = files ?w1" by simp
  from both show "last (stdout (update_mcp L ?w1)) = last (stdout ?w1)" by simp
qed

text \<open>
  C5. Idempotence. A second run of the script on the machine the first run left behind
  leaves every file, \<^verbatim>\<open>temp_settings.json\<close> among them, as the first run left it, and prints
  the same line; and lines 17 to 20 applied to a document they have produced return that
  same document.
\<close>

theorem update_mcp_idempotent:
  "files (update_mcp json_loads (update_mcp json_loads w)) = files (update_mcp json_loads w)
   \<and> last (stdout (update_mcp json_loads (update_mcp json_loads w)))
       = last (stdout (update_mcp json_loads w))
   \<and> (patch_settings doc = Inr out \<longrightarrow> patch_settings out = Inr out)"
  using update_mcp_files_twice update_mcp_last_twice patch_settings_idem by blast

theorem update_mcp_idempotent_witness:
  "files (update_mcp sample_loads (update_mcp sample_loads (sample_world sample_text_D None)))
     = files (update_mcp sample_loads (sample_world sample_text_D None))
   \<and> patch_settings scenario_D_settings = Inr scenario_D_merged
   \<and> patch_settings scenario_D_merged = Inr scenario_D_merged"
  using update_mcp_idempotent [of sample_loads "sample_world sample_text_D None"
      scenario_D_settings scenario_D_merged]
  by (simp add: patch_D)

lemma update_mcp_shape:
  "\<exists>l ops. stdout (update_mcp L w) = stdout w @ [l]
      \<and> io_log (update_mcp L w) = io_log w @ ops
      \<and> (ops = [OpenRead (settings_path w)]
           \<or> ops = [OpenRead (settings_path w), OpenWrite output_path])
      \<and> (l = Line ''Successfully updated settings configuration.''
           \<or> (\<exists>e. l = LineExc ''Error updating settings: '' e))"
  by (auto simp: update_mcp_def read_file_def open_write_def write_file_def handler_def
      print_line_def Let_def split: option.splits sum.splits)

lemma update_mcp_write_phase:
  assumes "raised_before_write L w = None"
  shows "\<exists>s'. files (update_mcp L w)
             = (files w)(output_path \<mapsto>
                  (opened_entry w output_path)\<lparr>content := stored_part (fsize_limit w) (dumps_indent2 s')\<rparr>)
          \<and> stdout (update_mcp L w)
             = stdout w @ [if fits w (dumps_indent2 s')
                           then Line ''Successfully updated settings configuration.''
                           else LineExc ''Error updating settings: '' OSError]"
proof -
  from assms obtain f s s' where f: "files w (settings_path w) = Some f" and r: "readable f"
      and l: "L (content f) = Inr s" and p: "patch_settings s = Inr s'"
      and m: "may_open_for_writing w output_path"
    using raised_before_write_None by blast
  note late = update_mcp_late [where L = L, OF f r l p m]
  from late(1) late(2) show ?thesis by blast
qed

text \<open>
  C7, as amended. Every run prints exactly one line, the success line or the error line,
  and opens each of the two files at most once: nothing is retried and no exception
  leaves the script. When an exception is raised before the output is written (reading
  or parsing the settings file, lines 17 to 20, opening the output file), no file is
  changed and the line printed is the error line for that exception. Otherwise only
  \<^verbatim>\<open>temp_settings.json\<close> changes: it holds the part of the text that the write stored, the
  whole text when the write succeeded, and the line tells which of the two happened.
\<close>

theorem update_mcp_error_caught:
  "(\<exists>l ops. stdout (update_mcp json_loads w) = stdout w @ [l]
      \<and> io_log (update_mcp json_loads w) = io_log w @ ops
      \<and> (ops = [OpenRead (settings_path w)]
           \<or> ops = [OpenRead (settings_path w), OpenWrite output_path])
      \<and> (l = Line ''Successfully updated settings configuration.''
           \<or> (\<exists>e. l = LineExc ''Error updating settings: '' e)))
   \<and> (\<forall>e. raised_before_write json_loads w = Some e \<longrightarrow>
         files (update_mcp json_loads w) = files w
         \<and> stdout (update_mcp json_loads w) = stdout w @ [LineExc ''Error updating settings: '' e])
   \<and> (raised_before_write json_loads w = None \<longrightarrow>
         (\<exists>s'. files (update_mcp json_loads w)
                  = (files w)(output_path \<mapsto>
                       (opened_entry w output_path)
                         \<lparr>content := stored_part (fsize_limit w) (dumps_indent2 s')\<rparr>)
               \<and> stdout (update_mcp json_loads w)
                  = stdout w @ [if fits w (dumps_indent2 s')
                                then Line ''Successfully updated settings configuration.''
                                else LineExc ''Error updating settings: '' OSError]))"
  using update_mcp_shape [of json_loads w] update_mcp_early(1,2) [of json_loads w]
    update_mcp_write_phase [of json_loads w]
  by blast

lemma sample_loads_malformed: "sample_loads ''{'' = Inl JSONDecodeError"
  by (simp add: sample_loads_def sample_documents_def sample_text_D_def sample_text_E_def
      sample_text_F_def quoted_def)

lemma sample_raised_malformed:
  "raised_before_write sample_loads (sample_world ''{'' None) = Some JSONDecodeError"
  by (simp add: raised_before_write_def fst_read_file sample_loads_malformed)

lemma patch_F:
  "patch_settings (JObject [(''theme'', JString ''dark''), (''mcpServers'', JString ''none'')])
     = Inl TypeError"
  by (simp add: patch_settings_def dict_contains_def dict_lookup_def)

lemma sample_raised_F:
  "raised_before_write sample_loads (sample_world sample_text_F None) = Some TypeError"
  by (simp add: raised_before_write_def fst_read_file sample_loads_F patch_F)

lemma sample_raised_D:
  "raised_before_write sample_loads (sample_world sample_text_D None) = None"
  by (simp add: raised_before_write_def fst_read_file fst_open_write sample_loads_D patch_D
      may_open_for_writing_def output_path_def)

theorem update_mcp_error_caught_witness:
  "raised_before_write sample_loads (sample_world ''{'' None) = Some JSONDecodeError
   \<and> files (update_mcp sample_loads (sample_world ''{'' None)) = files (sample_world ''{'' None)
   \<and> stdout (update_mcp sample_loads (sample_world ''{'' None))
       = [LineExc ''Error updating settings: '' JSONDecodeError]
   \<and> raised_before_write sample_loads (sample_world sample_text_F None) = Some TypeError
   \<and> files (update_mcp sample_loads (sample_world sample_text_F None))
       = files (sample_world sample_text_F None)
   \<and> stdout (update_mcp sample_loads (sample_world sample_text_F None))
       = [LineExc ''Error updating settings: '' TypeError]
   \<and> raised_before_write sample_loads (sample_world sample_text_D None) = None
   \<and> (\<exists>s'. files (update_mcp sample_loads (sample_world sample_text_D None))
               = (files (sample_world sample_text_D None))(output_path \<mapsto>
                    \<lparr>content = dumps_indent2 s', readable = True, writable = True\<rparr>)
            \<and> stdout (update_mcp sample_loads (sample_world sample_text_D None))
               = [Line ''Successfully updated settings configuration.''])"
  using update_mcp_error_caught [of sample_loads "sample_world ''{'' None"]
    update_mcp_error_caught [of sample_loads "sample_world sample_text_F None"]
    update_mcp_error_caught [of sample_loads "sample_world sample_text_D None"]
  by (simp add: sample_raised_malformed sample_raised_F sample_raised_D
      opened_entry_def stored_part_def fits_def output_path_def)

lemma patch_E:
  "patch_settings (JObject [(''theme'', JString ''dark'')])
     = Inr (JObject [(''theme'', JString ''dark''), (''mcpServers'', JObject [(''pearls'', pearls_config)])])"
  by (simp add: patch_settings_def dict_contains_def dict_lookup_def)

lemma dumps_E_prefix:
  "take 10 (dumps_indent2
      (JObject [(''theme'', JString ''dark''), (''mcpServers'', JObject [(''pearls'', pearls_config)])]))
     = ''{'' @ [CHR 0x0A] @ ''  '' @ [CHR 0x22] @ ''theme''"
  by (simp add: dumps_indent2_def encode_basestring_ascii_def escape_char_def newline_indent_def
      quoted_def)

lemma dumps_E_long:
  "10 < length (dumps_indent2
      (JObject [(''theme'', JString ''dark''), (''mcpServers'', JObject [(''pearls'', pearls_config)])]))"
  by (simp add: dumps_indent2_def encode_basestring_ascii_def escape_char_def newline_indent_def
      pearls_config_def)

text \<open>
  The claim C7 as it is written does not hold: a write that fails is reported like every
  other error, but it leaves a truncated \<^verbatim>\<open>temp_settings.json\<close> behind. Here the settings
  file holds \<^verbatim>\<open>{"theme": "dark"}\<close>, the output file does not exist and the size limit is 10
  characters.
\<close>

theorem update_mcp_partial_write_counterexample:
  "files (sample_world sample_text_E (Some 10)) output_path = None
   \<and> files (update_mcp sample_loads (sample_world sample_text_E (Some 10))) output_path
       = Some \<lparr>content = ''{'' @ [CHR 0x0A] @ ''  '' @ [CHR 0x22] @ ''theme'',
               readable = True, writable = True\<rparr>
   \<and> stdout (update_mcp sample_loads (sample_world sample_text_E (Some 10)))
       = [LineExc ''Error updating settings: '' OSError]"
proof -
  let ?w = "sample_world sample_text_E (Some 10)"
  have f: "files ?w (settings_path ?w)
      = Some \<lparr>content = sample_text_E, readable = True, writable = True\<rparr>"
    by simp
  have m: "may_open_for_writing ?w output_path"
    by (simp add: may_open_for_writing_def output_path_def)
  note late = update_mcp_late [where L = sample_loads and w = ?w
      and f = "\<lparr>content = sample_text_E, readable = True, writable = True\<rparr>",
      OF f _ _ patch_E m]
  have nf: "\<not> fits ?w (dumps_indent2
      (JObject [(''theme'', JString ''dark''), (''mcpServers'', JObject [(''pearls'', pearls_config)])]))"
    using dumps_E_long by (simp add: fits_def)
  have "files ?w output_path = None" by (simp add: output_path_def)
  moreover have "files (update_mcp sample_loads ?w) output_path
       = Some \<lparr>content = ''{'' @ [CHR 0x0A] @ ''  '' @ [CHR 0x22] @ ''theme'',
               readable = True, writable = True\<rparr>"
    using late(1) dumps_E_prefix
    by (simp add: sample_loads_E opened_entry_def stored_part_def output_path_def)
  moreover have "stdout (update_mcp sample_loads ?w) = [LineExc ''Error updating settings: '' OSError]"
    using late(2) nf by (simp add: sample_loads_E)
  ultimately show ?thesis by simp
qed

text \<open>
  C10. When the settings document has a \<^verbatim>\<open>mcpServers\<close> that is not a mapping, reading
  \<^verbatim>\<open>settings["mcpServers"]\<close> succeeds and the assignment of \<^verbatim>\<open>pearls\<close> into it raises
  \<^verbatim>\<open>TypeError\<close>; the script then only records the opening of the settings file and prints
  the error line: the output file is never opened and no file is changed.
\<close>

theorem update_mcp_servers_not_mapping:
  assumes "files w (settings_path w) = Some f" and "readable f"
    and "json_loads (content f) = Inr (JObject d)"
    and "dict_lookup d ''mcpServers'' = Some v" and "\<not> is_mapping v"
  shows "py_getitem (JObject d) ''mcpServers'' = Inr v
       \<and> py_setitem v ''pearls'' pearls_config = Inl TypeError
       \<and> update_mcp json_loads w
           = w\<lparr>io_log := io_log w @ [OpenRead (settings_path w)],
               stdout := stdout w @ [LineExc ''Error updating settings: '' TypeError]\<rparr>
       \<and> files (update_mcp json_loads w) = files w"
proof -
  from assms(5) have nm: "\<forall>s. v \<noteq> JObject s" by auto
  have p: "patch_settings (JObject d) = Inl TypeError"
    using patch_settings_not_mapping [OF assms(4) nm] .
  have g: "py_getitem (JObject d) ''mcpServers'' = Inr v"
    using assms(4) by simp
  have s: "py_setitem v ''pearls'' pearls_config = Inl TypeError"
    using assms(5) by (cases v) simp_all
  have u: "update_mcp json_loads w
           = w\<lparr>io_log := io_log w @ [OpenRead (settings_path w)],
               stdout := stdout w @ [LineExc ''Error updating settings: '' TypeError]\<rparr>"
    using assms(1,2,3) p
    by (simp add: update_mcp_def read_file_def handler_def print_line_def Let_def)
  from g s u show ?thesis by simp
qed

theorem update_mcp_servers_not_mapping_witness:
  "update_mcp sample_loads (sample_world sample_text_F None)
     = (sample_world sample_text_F None)
         \<lparr>io_log := [OpenRead ''/home/user/.gemini/settings.json''],
          stdout := [LineExc ''Error updating settings: '' TypeError]\<rparr>
   \<and> files (update_mcp sample_loads (sample_world sample_text_F None)) ''temp_settings.json'' = None"
  using update_mcp_servers_not_mapping [of "sample_world sample_text_F None"
      "\<lparr>content = sample_text_F, readable = True, writable = True\<rparr>" sample_loads
      "[(''theme'', JString ''dark''), (''mcpServers'', JString ''none'')]" "JString ''none''"]
  by (simp add: sample_loads_F dict_lookup_def)

end
